theory Spec2Isabelle
  imports Main
begin

section \<open>Strings\<close>

text \<open>
  Class names are ASCII strings. \<open>toLowerCase\<close> is JavaScript's
  \<^verbatim>\<open>String.prototype.toLowerCase\<close> on such strings: a capital letter
  \<open>A\<close> .. \<open>Z\<close> (codes 65 .. 90) becomes the small letter, whose code is 32 more
  (bit 5 set); every other character stays.
\<close>

definition isUpper :: "char \<Rightarrow> bool" where
  "isUpper c = (65 \<le> (of_char c :: nat) \<and> (of_char c :: nat) \<le> 90)"

definition lowerChar :: "char \<Rightarrow> char" where
  "lowerChar c =
     (if isUpper c
      then (case c of Char b0 b1 b2 b3 b4 b5 b6 b7 \<Rightarrow> Char b0 b1 b2 b3 b4 True b6 b7)
      else c)"

definition toLowerCase :: "string \<Rightarrow> string" where
  "toLowerCase str = map lowerChar str"

text \<open>
  Two characters are the same letter when they are equal or one is the capital of the
  other; two strings differ only in letter case when they have the same length and
  agree, position by position, up to that.
\<close>

definition sameLetter :: "char \<Rightarrow> char \<Rightarrow> bool" where
  "sameLetter c d = (c = d \<or> (isUpper c \<and> d = lowerChar c) \<or> (isUpper d \<and> c = lowerChar d))"

definition differOnlyInCase :: "string \<Rightarrow> string \<Rightarrow> bool" where
  "differOnlyInCase a b = list_all2 sameLetter a b"

text \<open>
  \<^verbatim>\<open>str.split(sep)\<close> for a one-character separator: the pieces between the
  separators, in order; a string without the separator is its own single piece, and
  the empty string gives one empty piece.
\<close>

fun js_split :: "char \<Rightarrow> string \<Rightarrow> string list" where
  "js_split sep [] = [[]]"
| "js_split sep (c # cs) =
     (if c = sep then [] # js_split sep cs
      else (case js_split sep cs of
              [] \<Rightarrow> [[c]]
            | w # ws \<Rightarrow> (c # w) # ws))"

text \<open>
  \<^verbatim>\<open>name[i]\<close> spliced into a string: an index past the end reads
  \<^verbatim>\<open>undefined\<close>, which string concatenation prints as the word.
\<close>

definition js_index_text :: "string list \<Rightarrow> nat \<Rightarrow> string" where
  "js_index_text name i = (if i < length name then name ! i else ''undefined'')"

section \<open>Errors\<close>

text \<open>
  \<open>IModelStatus\<close> is declared in \<^verbatim>\<open>../common/IModelError\<close>; the two members
  \<^verbatim>\<open>ClassRegistry.ts\<close> uses are \<open>BadArg\<close> and \<open>NotFound\<close>. An exception
  is a value: an \<open>IModelError\<close> with its \<open>errorNumber\<close>, or one of the errors the
  JavaScript runtime raises. \<open>AssertionError\<close> is what a failed \<^verbatim>\<open>assert\<close> throws.
  \<open>OutsideFragment\<close> marks a run in which \<^verbatim>\<open>eval\<close> is given text that is not
  in the fragment of JavaScript interpreted below.
\<close>

datatype IModelStatus = BadArg | NotFound

datatype error =
    is_IModelError: IModelError (errorNumber: IModelStatus)
  | TypeError
  | SyntaxError
  | AssertionError
  | OutsideFragment

definition isClassNotFoundError :: "error \<Rightarrow> bool" where
  "isClassNotFoundError err = (is_IModelError err \<and> errorNumber err = NotFound)"

definition isMetaDataNotFoundError :: "error \<Rightarrow> bool" where
  "isMetaDataNotFoundError err = (is_IModelError err \<and> errorNumber err = NotFound)"

definition makeClassNotFoundError :: "error" where
  "makeClassNotFoundError = IModelError NotFound"

definition makeMetaDataNotFoundError :: "error" where
  "makeMetaDataNotFoundError = IModelError NotFound"

text \<open>
  \<^verbatim>\<open>assert\<close> comes from the package \<^verbatim>\<open>bentleyjs-core\<close>. Whether assertions
  are switched on is a parameter of the model: when they are, a false condition
  throws; when they are not, the call does nothing.
\<close>

definition js_assert :: "bool \<Rightarrow> bool \<Rightarrow> error + unit" where
  "js_assert assertionsEnabled condition =
     (if assertionsEnabled \<and> \<not> condition then Inl AssertionError else Inr ())"

section \<open>The metadata cache\<close>

text \<open>
  \<open>EntityMetaData\<close> is declared in \<^verbatim>\<open>./Entity\<close>. \<^verbatim>\<open>generateClass\<close>
  tests \<^verbatim>\<open>ecclass\<close> against \<^verbatim>\<open>undefined\<close> and \<^verbatim>\<open>baseClasses\<close> for
  being there, so both fields are optional in the model; the other fields of a
  descriptor are not read by the registry.
\<close>

record EntityMetaData =
  ecclass :: "string option"
  baseClasses :: "string list option"

text \<open>
  \<open>MetaDataRegistry\<close> is its private \<^verbatim>\<open>_registry\<close> map. The two methods
  are written in state-passing style: each returns the registry it leaves behind.
\<close>

type_synonym MetaDataRegistry = "string \<rightharpoonup> EntityMetaData"

definition MetaDataRegistry_find ::
  "string \<Rightarrow> MetaDataRegistry \<Rightarrow> EntityMetaData option \<times> MetaDataRegistry" where
  "MetaDataRegistry_find classFullName registry =
     (let key = toLowerCase classFullName in (registry key, registry))"

definition MetaDataRegistry_add ::
  "string \<Rightarrow> EntityMetaData \<Rightarrow> MetaDataRegistry \<Rightarrow> MetaDataRegistry" where
  "MetaDataRegistry_add classFullName metaData registry =
     (let key = toLowerCase classFullName in registry(key \<mapsto> metaData))"

text \<open>
  Of an \<^verbatim>\<open>IModelDb\<close> the registry reads the \<^verbatim>\<open>classMetaDataRegistry\<close> only.
\<close>

record IModelDb =
  classMetaDataRegistry :: MetaDataRegistry

section \<open>Schemas and constructors\<close>

text \<open>
  Modelled from the spec: the Schema Directory (\<^verbatim>\<open>Schemas\<close> and \<^verbatim>\<open>Schema\<close>
  of \<^verbatim>\<open>./Schema\<close>), whose code is missing. A schema is a named grouping; the
  directory keeps the registered schemas, \<open>registerSchema\<close> adds one and
  \<open>getRegisteredSchema\<close> finds the schema registered under a name, or nothing.
\<close>

record Schema =
  schema_name :: string

definition registerSchema_dir :: "Schema \<Rightarrow> Schema list \<Rightarrow> Schema list" where
  "registerSchema_dir schema dir = schema # dir"

definition getRegisteredSchema_dir :: "string \<Rightarrow> Schema list \<Rightarrow> Schema option" where
  "getRegisteredSchema_dir domainName dir =
     List.find (\<lambda>schema. schema_name schema = domainName) dir"

text \<open>
  A constructor is an object: \<open>ctor_id\<close> is its identity (two constructors are the
  same instance when their ids agree), \<open>ctor_name\<close> is the \<^verbatim>\<open>name\<close> property of
  the class, \<open>ctor_schema\<close> its static \<^verbatim>\<open>schema\<close> property (absent until it is
  assigned), and \<open>ctor_extends\<close> the identity of the constructor it extends (absent
  for a class without an \<^verbatim>\<open>extends\<close> clause).
\<close>

record EntityCtor =
  ctor_id :: nat
  ctor_name :: string
  ctor_schema :: "Schema option"
  ctor_extends :: "nat option"

text \<open>
  The process-wide state: the static \<open>classMap\<close> of \<^verbatim>\<open>ClassRegistry\<close>, the
  schemas of the Schema Directory, and \<open>allocated\<close>, the number of constructors
  synthesized so far (the identity the next one gets).
\<close>

record Runtime =
  classMap :: "string \<rightharpoonup> EntityCtor"
  registeredSchemas :: "Schema list"
  allocated :: nat

definition registerSchema :: "Schema \<Rightarrow> Runtime \<Rightarrow> Runtime" where
  "registerSchema schema s =
     s\<lparr>registeredSchemas := registerSchema_dir schema (registeredSchemas s)\<rparr>"

definition getRegisteredSchema :: "string \<Rightarrow> Runtime \<Rightarrow> Schema option" where
  "getRegisteredSchema domainName s = getRegisteredSchema_dir domainName (registeredSchemas s)"

definition getKey :: "string \<Rightarrow> string \<Rightarrow> string" where
  "getKey schemaName className = toLowerCase (schemaName @ '':'' @ className)"

definition lookupClass :: "string \<Rightarrow> Runtime \<Rightarrow> EntityCtor option" where
  "lookupClass name s = classMap s (toLowerCase name)"

text \<open>
  \<^verbatim>\<open>registerEcClass\<close> reads \<^verbatim>\<open>ctor.schema.name\<close> first: a constructor
  whose \<^verbatim>\<open>schema\<close> is not set makes that a \<open>TypeError\<close>, before the map is
  touched.
\<close>

definition registerEcClass :: "EntityCtor \<Rightarrow> Runtime \<Rightarrow> (error + unit) \<times> Runtime" where
  "registerEcClass ctor s =
     (case ctor_schema ctor of
        None \<Rightarrow> (Inl TypeError, s)
      | Some schema \<Rightarrow>
          (let key = getKey (schema_name schema) (ctor_name ctor)
           in (Inr (), s\<lparr>classMap := (classMap s)(key \<mapsto> ctor)\<rparr>)))"

definition isClassRegistered :: "string \<Rightarrow> string \<Rightarrow> Runtime \<Rightarrow> bool" where
  "isClassRegistered schemaName className s = (classMap s (getKey schemaName className) \<noteq> None)"

section \<open>The generated class definition\<close>

text \<open>
  \<^verbatim>\<open>generateClassFromMetaData\<close> builds the text of a JavaScript program, which
  \<^verbatim>\<open>generateClassForEntity\<close> extends by one call and hands to \<^verbatim>\<open>eval\<close>.
  The text is always a sequence of statements of five shapes, so the model builds
  the sequence, and \<open>js_text\<close> prints it as the source concatenates it. The flag
  of \<open>ClassDecl\<close> says whether the class has the clause
  \<^verbatim>\<open>extends ClassRegistry.lookupClass(entityMetaData.baseClasses[0])\<close>.
\<close>

datatype jsStmt =
    ProxySchemaDecl string
  | CallRegisterSchema string
  | ClassDecl string bool
  | AssignSchema string string
  | CallRegisterEcClass string

fun js_stmt_text :: "jsStmt \<Rightarrow> string" where
  "js_stmt_text (ProxySchemaDecl schemaName) =
     ''class '' @ schemaName @ '' extends ClassRegistry.getSchemaBaseClass(){}''"
| "js_stmt_text (CallRegisterSchema schemaName) =
     '' ClassRegistry.registerSchema('' @ schemaName @ '');''"
| "js_stmt_text (ClassDecl className hasBase) =
     ''class '' @ className @ '' '' @
     (if hasBase then ''extends ClassRegistry.lookupClass(entityMetaData.baseClasses[0])''
      else []) @
     '' { } ''"
| "js_stmt_text (AssignSchema className schema) =
     className @ ''.schema = ClassRegistry.getRegisteredSchema('' @ [CHR 0x27] @ schema @
     [CHR 0x27] @ '');''"
| "js_stmt_text (CallRegisterEcClass className) =
     '' ClassRegistry.registerEcClass('' @ className @ ''); ''"

definition js_text :: "jsStmt list \<Rightarrow> string" where
  "js_text stmts = concat (map js_stmt_text stmts)"

definition generateProxySchema :: "string \<Rightarrow> jsStmt list" where
  "generateProxySchema schemaName = [ProxySchemaDecl schemaName, CallRegisterSchema schemaName]"

text \<open>
  \<^verbatim>\<open>entityMetaData.ecclass.split(":")\<close> and
  \<^verbatim>\<open>entityMetaData.baseClasses.length\<close> are a \<open>TypeError\<close> on a missing field.
\<close>

definition generateClassFromMetaData ::
  "EntityMetaData \<Rightarrow> Runtime \<Rightarrow> error + jsStmt list" where
  "generateClassFromMetaData entityMetaData s =
     (case ecclass entityMetaData of
        None \<Rightarrow> Inl TypeError
      | Some ec \<Rightarrow>
          (let name = js_split CHR '':'' ec;
               schema = js_index_text name 0;
               className = js_index_text name 1;
               classStaticProps = [AssignSchema className schema]
           in case baseClasses entityMetaData of
                None \<Rightarrow> Inl TypeError
              | Some bases \<Rightarrow>
                  (let classExtends = (length bases \<noteq> 0);
                       domainDef = (if getRegisteredSchema schema s \<noteq> None then []
                                    else generateProxySchema schema)
                   in Inr (domainDef @ [ClassDecl className classExtends] @ classStaticProps))))"

section \<open>Evaluating the generated text\<close>

text \<open>
  The interpreted fragment: every class name in the text is a plain identifier
  (a letter, \<open>_\<close> or \<open>$\<close>, then letters, digits, \<open>_\<close> or \<open>$\<close>; not a reserved
  word; not \<open>ClassRegistry\<close> or \<open>entityMetaData\<close>, the two outer names the text
  itself refers to), and every schema name written between quotes holds no quote,
  backslash or line break. On any other text \<open>js_eval\<close> answers
  \<open>OutsideFragment\<close> and leaves the state alone: JavaScript rejects most such text
  with an error, but a name can also smuggle statements of its own into the program,
  and those are not interpreted here.
\<close>

definition isLetter :: "char \<Rightarrow> bool" where
  "isLetter c = (isUpper c \<or> (97 \<le> (of_char c :: nat) \<and> (of_char c :: nat) \<le> 122))"

definition isDigit :: "char \<Rightarrow> bool" where
  "isDigit c = (48 \<le> (of_char c :: nat) \<and> (of_char c :: nat) \<le> 57)"

definition isIdentifierStart :: "char \<Rightarrow> bool" where
  "isIdentifierStart c = (isLetter c \<or> c = CHR ''_'' \<or> c = CHR ''$'')"

definition isIdentifierPart :: "char \<Rightarrow> bool" where
  "isIdentifierPart c = (isIdentifierStart c \<or> isDigit c)"

definition reservedWords :: "string list" where
  "reservedWords =
     [''arguments'', ''await'', ''break'', ''case'', ''catch'', ''class'', ''const'',
      ''continue'', ''debugger'', ''default'', ''delete'', ''do'', ''else'', ''enum'',
      ''eval'', ''export'', ''extends'', ''false'', ''finally'', ''for'', ''function'',
      ''if'', ''implements'', ''import'', ''in'', ''instanceof'', ''interface'', ''let'',
      ''new'', ''null'', ''package'', ''private'', ''protected'', ''public'', ''return'',
      ''static'', ''super'', ''switch'', ''this'', ''throw'', ''true'', ''try'', ''typeof'',
      ''var'', ''void'', ''while'', ''with'', ''yield'']"

definition outerNames :: "string list" where
  "outerNames = [''ClassRegistry'', ''entityMetaData'']"

definition plainIdentifier :: "string \<Rightarrow> bool" where
  "plainIdentifier n =
     (case n of
        [] \<Rightarrow> False
      | c # cs \<Rightarrow> isIdentifierStart c \<and> list_all isIdentifierPart cs
                 \<and> n \<notin> set reservedWords \<and> n \<notin> set outerNames)"

definition quotable :: "string \<Rightarrow> bool" where
  "quotable str =
     list_all (\<lambda>c. c \<noteq> CHR 0x27 \<and> c \<noteq> CHR 0x5C \<and> c \<noteq> CHR 0x0A \<and> c \<noteq> CHR 0x0D) str"

fun js_identifiers :: "jsStmt \<Rightarrow> string list" where
  "js_identifiers (ProxySchemaDecl n) = [n]"
| "js_identifiers (CallRegisterSchema n) = [n]"
| "js_identifiers (ClassDecl n hasBase) = [n]"
| "js_identifiers (AssignSchema n schema) = [n]"
| "js_identifiers (CallRegisterEcClass n) = [n]"

fun js_quoted :: "jsStmt \<Rightarrow> string list" where
  "js_quoted (AssignSchema n schema) = [schema]"
| "js_quoted stmt = []"

fun js_declared :: "jsStmt \<Rightarrow> string list" where
  "js_declared (ProxySchemaDecl n) = [n]"
| "js_declared (ClassDecl n hasBase) = [n]"
| "js_declared stmt = []"

definition inFragment :: "jsStmt list \<Rightarrow> bool" where
  "inFragment jsDef =
     (list_all plainIdentifier (concat (map js_identifiers jsDef))
      \<and> list_all quotable (concat (map js_quoted jsDef)))"

text \<open>
  What a name of the evaluated text is bound to: a schema class or an entity class.
  The statements run in order, each on the state the one before left:
  \<^item> a proxy schema class extends the schema base class and carries its own name;
  \<^item> \<^verbatim>\<open>registerSchema\<close> puts it into the Schema Directory;
  \<^item> a class declaration with an \<^verbatim>\<open>extends\<close> clause looks the first base class
    up in the class map; extending \<^verbatim>\<open>undefined\<close> is a \<open>TypeError\<close>; the new
    class gets the next identity and, until it is given its own, sees the static
    \<^verbatim>\<open>schema\<close> of the class it extends;
  \<^item> the assignment sets the static \<^verbatim>\<open>schema\<close> of the new class to what the
    directory holds under the schema name;
  \<^item> \<^verbatim>\<open>registerEcClass\<close> is the method above.
  A statement that uses a name no earlier statement has declared, or a class of the
  wrong kind, does not occur in generated text; it is outside the fragment.
\<close>

datatype jsValue = SchemaClass Schema | EntityClass EntityCtor

fun js_exec ::
  "EntityMetaData \<Rightarrow> jsStmt list \<Rightarrow> (string \<times> jsValue) list \<Rightarrow> Runtime
     \<Rightarrow> (error + unit) \<times> Runtime" where
  "js_exec entityMetaData [] scope s = (Inr (), s)"
| "js_exec entityMetaData (ProxySchemaDecl n # rest) scope s =
     js_exec entityMetaData rest ((n, SchemaClass \<lparr>schema_name = n\<rparr>) # scope) s"
| "js_exec entityMetaData (CallRegisterSchema n # rest) scope s =
     (case map_of scope n of
        Some (SchemaClass schema) \<Rightarrow> js_exec entityMetaData rest scope (registerSchema schema s)
      | _ \<Rightarrow> (Inl OutsideFragment, s))"
| "js_exec entityMetaData (ClassDecl n hasBase # rest) scope s =
     (if hasBase then
        (case baseClasses entityMetaData of
           Some (b # bs) \<Rightarrow>
             (case lookupClass b s of
                None \<Rightarrow> (Inl TypeError, s)
              | Some base \<Rightarrow>
                  js_exec entityMetaData rest
                    ((n, EntityClass \<lparr>ctor_id = allocated s, ctor_name = n,
                                      ctor_schema = ctor_schema base,
                                      ctor_extends = Some (ctor_id base)\<rparr>) # scope)
                    (s\<lparr>allocated := Suc (allocated s)\<rparr>))
         | _ \<Rightarrow> (Inl TypeError, s))
      else
        js_exec entityMetaData rest
          ((n, EntityClass \<lparr>ctor_id = allocated s, ctor_name = n,
                            ctor_schema = None, ctor_extends = None\<rparr>) # scope)
          (s\<lparr>allocated := Suc (allocated s)\<rparr>))"
| "js_exec entityMetaData (AssignSchema n schema # rest) scope s =
     (case map_of scope n of
        Some (EntityClass ctor) \<Rightarrow>
          js_exec entityMetaData rest
            ((n, EntityClass (ctor\<lparr>ctor_schema := getRegisteredSchema schema s\<rparr>)) # scope) s
      | _ \<Rightarrow> (Inl OutsideFragment, s))"
| "js_exec entityMetaData (CallRegisterEcClass n # rest) scope s =
     (case map_of scope n of
        Some (EntityClass ctor) \<Rightarrow>
          (case registerEcClass ctor s of
             (Inl e, s') \<Rightarrow> (Inl e, s')
           | (Inr u, s') \<Rightarrow> js_exec entityMetaData rest scope s')
      | _ \<Rightarrow> (Inl OutsideFragment, s))"

text \<open>
  \<^verbatim>\<open>eval\<close>: the text is parsed whole before any of it runs, and declaring a
  class name twice is a \<open>SyntaxError\<close> of the parse.
\<close>

definition js_eval :: "EntityMetaData \<Rightarrow> jsStmt list \<Rightarrow> Runtime \<Rightarrow> (error + unit) \<times> Runtime" where
  "js_eval entityMetaData jsDef s =
     (if \<not> inFragment jsDef then (Inl OutsideFragment, s)
      else if \<not> distinct (concat (map js_declared jsDef)) then (Inl SyntaxError, s)
      else js_exec entityMetaData jsDef [] s)"

section \<open>The class registry\<close>

text \<open>
  \<^verbatim>\<open>generateClassForEntity\<close>: build the text, evaluate it, then look the class
  up under the descriptor's own \<^verbatim>\<open>ecclass\<close>. With assertions off, a failed
  lookup is returned as \<^verbatim>\<open>undefined\<close>, so the result is an optional constructor.
  An exception keeps whatever the state was when it was thrown.
\<close>

definition generateClassForEntity ::
  "bool \<Rightarrow> EntityMetaData \<Rightarrow> Runtime \<Rightarrow> (error + EntityCtor option) \<times> Runtime" where
  "generateClassForEntity assertionsEnabled entityMetaData s =
     (case ecclass entityMetaData of
        None \<Rightarrow> (Inl TypeError, s)
      | Some ec \<Rightarrow>
          (let name = js_split CHR '':'' ec in
           case generateClassFromMetaData entityMetaData s of
             Inl e \<Rightarrow> (Inl e, s)
           | Inr generated \<Rightarrow>
               (let jsDef = generated @ [CallRegisterEcClass (js_index_text name 1)] in
                case js_eval entityMetaData jsDef s of
                  (Inl e, s') \<Rightarrow> (Inl e, s')
                | (Inr u, s') \<Rightarrow>
                    (let ctor = lookupClass ec s' in
                     case js_assert assertionsEnabled (ctor \<noteq> None) of
                       Inl e \<Rightarrow> (Inl e, s')
                     | Inr u \<Rightarrow> (Inr ctor, s')))))"

text \<open>
  \<^verbatim>\<open>generateClass\<close> and \<^verbatim>\<open>getClass\<close> call each other. The recursion follows
  the descriptors, which can form a cycle, so the model counts the nested calls of
  \<^verbatim>\<open>generateClass\<close> against a bound: \<open>None\<close> says that the bound was too
  small. \<open>MetaDataRegistry_find\<close> leaves the registry as it was, so the
  \<open>iModel\<close> is not threaded on.
\<close>

fun generateClass ::
  "nat \<Rightarrow> bool \<Rightarrow> string \<Rightarrow> IModelDb \<Rightarrow> Runtime
     \<Rightarrow> ((error + EntityCtor option) \<times> Runtime) option"
and getClass ::
  "nat \<Rightarrow> bool \<Rightarrow> string \<Rightarrow> IModelDb \<Rightarrow> Runtime
     \<Rightarrow> ((error + EntityCtor option) \<times> Runtime) option" where
  "generateClass 0 assertionsEnabled classFullName iModel s = None"
| "generateClass (Suc fuel) assertionsEnabled classFullName iModel s =
     (case fst (MetaDataRegistry_find classFullName (classMetaDataRegistry iModel)) of
        None \<Rightarrow> Some (Inl makeMetaDataNotFoundError, s)
      | Some metadata \<Rightarrow>
          if ecclass metadata = None then Some (Inl makeMetaDataNotFoundError, s)
          else
            (case (case baseClasses metadata of
                     Some (b # bs) \<Rightarrow> getClass fuel assertionsEnabled b iModel s
                   | _ \<Rightarrow> Some (Inr None, s)) of
               None \<Rightarrow> None
             | Some (Inl e, s') \<Rightarrow> Some (Inl e, s')
             | Some (Inr base, s') \<Rightarrow>
                 Some (generateClassForEntity assertionsEnabled metadata s')))"
| "getClass fuel assertionsEnabled fullName iModel s =
     (let key = toLowerCase fullName in
      if classMap s key = None then generateClass fuel assertionsEnabled fullName iModel s
      else
        (let ctor = classMap s key in
         case js_assert assertionsEnabled (ctor \<noteq> None) of
           Inl e \<Rightarrow> Some (Inl e, s)
         | Inr u \<Rightarrow>
             (case ctor of
                None \<Rightarrow> Some (Inl makeClassNotFoundError, s)
              | Some c \<Rightarrow> Some (Inr (Some c), s))))"

text \<open>
  Modelled from the spec: \<^verbatim>\<open>EntityProps\<close>, \<^verbatim>\<open>Entity\<close> and the constructor
  call \<^verbatim>\<open>new ctor(props, iModel)\<close>, whose code is missing. The props carry
  an optional class name; the instance records the constructor that made it, the
  props and the owning context.
\<close>

record EntityProps =
  classFullName :: "string option"

record Entity =
  entity_ctor :: EntityCtor
  entity_props :: EntityProps
  entity_iModel :: IModelDb

definition new_Entity :: "EntityCtor \<Rightarrow> EntityProps \<Rightarrow> IModelDb \<Rightarrow> Entity" where
  "new_Entity ctor props iModel =
     \<lparr>entity_ctor = ctor, entity_props = props, entity_iModel = iModel\<rparr>"

text \<open>
  \<^verbatim>\<open>!props.classFullName\<close> holds for a missing name and for the empty string.
\<close>

definition createInstance ::
  "nat \<Rightarrow> bool \<Rightarrow> EntityProps \<Rightarrow> IModelDb \<Rightarrow> Runtime
     \<Rightarrow> ((error + Entity) \<times> Runtime) option" where
  "createInstance fuel assertionsEnabled props iModel s =
     (case classFullName props of
        None \<Rightarrow> Some (Inl (IModelError BadArg), s)
      | Some fullName \<Rightarrow>
          if fullName = [] then Some (Inl (IModelError BadArg), s)
          else
            (case classMap s (toLowerCase fullName) of
               Some ctor \<Rightarrow> Some (Inr (new_Entity ctor props iModel), s)
             | None \<Rightarrow>
                 (case generateClass fuel assertionsEnabled fullName iModel s of
                    None \<Rightarrow> None
                  | Some (Inl e, s') \<Rightarrow> Some (Inl e, s')
                  | Some (Inr None, s') \<Rightarrow> Some (Inl makeClassNotFoundError, s')
                  | Some (Inr (Some ctor), s') \<Rightarrow>
                      Some (Inr (new_Entity ctor props iModel), s'))))"

section \<open>Chains of primary base classes\<close>

text \<open>
  \<open>openBase\<close> is the class \<^verbatim>\<open>getClass(n)\<close> has to resolve before it can
  synthesize \<open>n\<close>: the primary base class of \<open>n\<close>. There is none when \<open>n\<close> is
  registered already, when the provider has no descriptor for \<open>n\<close> or one without
  its \<^verbatim>\<open>ecclass\<close>, and when the descriptor lists no base class.
  \<open>chainEndsWithin k\<close> says that the chain of such links that starts at \<open>n\<close>
  ends after at most \<open>k\<close> of them.
\<close>

definition openBase :: "IModelDb \<Rightarrow> Runtime \<Rightarrow> string \<Rightarrow> string option" where
  "openBase iModel s n =
     (if classMap s (toLowerCase n) \<noteq> None then None
      else
        (case fst (MetaDataRegistry_find n (classMetaDataRegistry iModel)) of
           None \<Rightarrow> None
         | Some metadata \<Rightarrow>
             if ecclass metadata = None then None
             else (case baseClasses metadata of Some (b # bs) \<Rightarrow> Some b | _ \<Rightarrow> None)))"

fun chainEndsWithin :: "nat \<Rightarrow> IModelDb \<Rightarrow> Runtime \<Rightarrow> string \<Rightarrow> bool" where
  "chainEndsWithin 0 iModel s n = (openBase iModel s n = None)"
| "chainEndsWithin (Suc k) iModel s n =
     (case openBase iModel s n of
        None \<Rightarrow> True
      | Some b \<Rightarrow> chainEndsWithin k iModel s b)"

section \<open>Well-formed class names and descriptors\<close>

text \<open>
  A class full name is \<open>schema:class\<close>. A descriptor is filed under its own name
  when the \<^verbatim>\<open>ecclass\<close> it carries is, up to letter case, the name the provider
  holds it under; \<open>filedUnderOwnName iModel n\<close> says so of the descriptor found
  under \<open>n\<close>, if there is one with an \<^verbatim>\<open>ecclass\<close>.
\<close>

definition qualifiedName :: "string \<Rightarrow> string \<Rightarrow> string" where
  "qualifiedName schemaName className = schemaName @ '':'' @ className"

definition filedUnderOwnName :: "IModelDb \<Rightarrow> string \<Rightarrow> bool" where
  "filedUnderOwnName iModel n =
     (case fst (MetaDataRegistry_find n (classMetaDataRegistry iModel)) of
        None \<Rightarrow> True
      | Some metadata \<Rightarrow>
          (case ecclass metadata of
             None \<Rightarrow> True
           | Some ec \<Rightarrow> differOnlyInCase ec n))"

text \<open>
  What the evaluation of a well-formed generated text produces: the constructor
  \<open>synthesized\<close>, with the next identity, and the state \<open>withSchema\<close> in which
  the schema is registered, by a proxy if it was not.
\<close>

definition synthesized :: "string \<Rightarrow> string \<Rightarrow> nat option \<Rightarrow> Runtime \<Rightarrow> EntityCtor" where
  "synthesized sn cn parent s =
     \<lparr>ctor_id = allocated s, ctor_name = cn, ctor_schema = Some \<lparr>schema_name = sn\<rparr>,
      ctor_extends = parent\<rparr>"

definition withSchema :: "string \<Rightarrow> Runtime \<Rightarrow> Runtime" where
  "withSchema sn s =
     (if getRegisteredSchema sn s \<noteq> None then s else registerSchema \<lparr>schema_name = sn\<rparr> s)"

section \<open>Example data\<close>

text \<open>
  The scenario of the specification: an empty registry, and a metadata provider that
  holds \<open>S:Root\<close> without a base class, \<open>S:Mid\<close> on \<open>S:Root\<close> and \<open>S:Leaf\<close> on
  \<open>S:Mid\<close>. \<open>handWritten\<close> is a registry in which a class \<open>S:X\<close> has been
  registered by \<^verbatim>\<open>registerEcClass\<close>; \<open>misfiled\<close> is a provider that holds,
  under the name \<open>S:X\<close>, the descriptor of the class \<open>S:Y\<close>.
\<close>

definition emptyRuntime :: Runtime where
  "emptyRuntime = \<lparr>classMap = Map.empty, registeredSchemas = [], allocated = 0\<rparr>"

definition leafChain :: IModelDb where
  "leafChain =
     \<lparr>classMetaDataRegistry =
        MetaDataRegistry_add ''S:Leaf'' \<lparr>ecclass = Some ''S:Leaf'', baseClasses = Some [''S:Mid'']\<rparr>
       (MetaDataRegistry_add ''S:Mid'' \<lparr>ecclass = Some ''S:Mid'', baseClasses = Some [''S:Root'']\<rparr>
       (MetaDataRegistry_add ''S:Root'' \<lparr>ecclass = Some ''S:Root'', baseClasses = Some []\<rparr>
        Map.empty))\<rparr>"

definition noMetaData :: IModelDb where
  "noMetaData = \<lparr>classMetaDataRegistry = Map.empty\<rparr>"

definition classX :: EntityCtor where
  "classX = \<lparr>ctor_id = 0, ctor_name = ''X'', ctor_schema = Some \<lparr>schema_name = ''S''\<rparr>,
             ctor_extends = None\<rparr>"

definition handWritten :: Runtime where
  "handWritten =
     snd (registerEcClass classX
            \<lparr>classMap = Map.empty, registeredSchemas = [\<lparr>schema_name = ''S''\<rparr>],
             allocated = 1\<rparr>)"

definition misfiled :: IModelDb where
  "misfiled =
     \<lparr>classMetaDataRegistry =
        MetaDataRegistry_add ''S:X'' \<lparr>ecclass = Some ''S:Y'', baseClasses = Some []\<rparr>
        Map.empty\<rparr>"

text \<open>
  \<open>afterRoot\<close> is the registry once \<open>S:Root\<close> has been synthesized in the empty
  one. \<open>afterFirst\<close> and \<open>afterSecond\<close> are the registry after one and after
  two calls of \<^verbatim>\<open>getClass("S:X")\<close> with the provider \<open>misfiled\<close>.
\<close>

definition classRoot :: EntityCtor where
  "classRoot = \<lparr>ctor_id = 0, ctor_name = ''Root'', ctor_schema = Some \<lparr>schema_name = ''S''\<rparr>,
                ctor_extends = None\<rparr>"

definition afterRoot :: Runtime where
  "afterRoot = \<lparr>classMap = [''s:root'' \<mapsto> classRoot],
                registeredSchemas = [\<lparr>schema_name = ''S''\<rparr>], allocated = 1\<rparr>"

definition midDescriptor :: EntityMetaData where
  "midDescriptor = \<lparr>ecclass = Some ''S:Mid'', baseClasses = Some [''S:Root'']\<rparr>"

definition classMid :: EntityCtor where
  "classMid = \<lparr>ctor_id = 1, ctor_name = ''Mid'', ctor_schema = Some \<lparr>schema_name = ''S''\<rparr>,
               ctor_extends = Some 0\<rparr>"

definition firstY :: EntityCtor where
  "firstY = \<lparr>ctor_id = 0, ctor_name = ''Y'', ctor_schema = Some \<lparr>schema_name = ''S''\<rparr>,
             ctor_extends = None\<rparr>"

definition secondY :: EntityCtor where
  "secondY = \<lparr>ctor_id = 1, ctor_name = ''Y'', ctor_schema = Some \<lparr>schema_name = ''S''\<rparr>,
              ctor_extends = None\<rparr>"

definition afterFirst :: Runtime where
  "afterFirst = \<lparr>classMap = [''s:y'' \<mapsto> firstY],
                 registeredSchemas = [\<lparr>schema_name = ''S''\<rparr>], allocated = 1\<rparr>"

definition afterSecond :: Runtime where
  "afterSecond = \<lparr>classMap = [''s:y'' \<mapsto> secondY],
                  registeredSchemas = [\<lparr>schema_name = ''S''\<rparr>], allocated = 2\<rparr>"

text \<open>
  \<open>sameNameChain\<close> is a provider with three descriptors, each filed under its own
  name: the class \<open>X\<close> of the schema \<open>X\<close> without a base class, \<open>X:B\<close> on
  \<open>X:X\<close>, and \<open>X:C\<close> on \<open>X:B\<close>.
\<close>

definition sameNameRoot :: EntityMetaData where
  "sameNameRoot = \<lparr>ecclass = Some ''X:X'', baseClasses = Some []\<rparr>"

definition sameNameChain :: IModelDb where
  "sameNameChain =
     \<lparr>classMetaDataRegistry =
        MetaDataRegistry_add ''X:C'' \<lparr>ecclass = Some ''X:C'', baseClasses = Some [''X:B'']\<rparr>
       (MetaDataRegistry_add ''X:B'' \<lparr>ecclass = Some ''X:B'', baseClasses = Some [''X:X'']\<rparr>
       (MetaDataRegistry_add ''X:X'' sameNameRoot Map.empty))\<rparr>"

section \<open>Letter case\<close>

lemmas charDefs = toLowerCase_def lowerChar_def isUpper_def

lemma lowerChar_not_upper: "\<not> isUpper (lowerChar c)"
  by (cases c) (auto simp add: lowerChar_def isUpper_def of_bool_def split: if_splits)

lemma lowerChar_code: "isUpper c \<Longrightarrow> of_char (lowerChar c) = (of_char c + 32 :: nat)"
  by (cases c) (auto simp add: lowerChar_def isUpper_def of_bool_def split: if_splits)

lemma lowerChar_idem: "lowerChar (lowerChar c) = lowerChar c"
  using lowerChar_not_upper [of c] by (simp add: lowerChar_def [of "lowerChar c"])

lemma sameLetter_lowerChar: "sameLetter c d \<Longrightarrow> lowerChar c = lowerChar d"
  unfolding sameLetter_def using lowerChar_idem by auto

lemma differOnlyInCase_toLowerCase:
  "differOnlyInCase a b \<Longrightarrow> toLowerCase a = toLowerCase b"
  unfolding differOnlyInCase_def toLowerCase_def
  by (induction a b rule: list_all2_induct) (simp_all add: sameLetter_lowerChar)

lemma generateClass_key:
  "toLowerCase a = toLowerCase b \<Longrightarrow>
     generateClass fuel ae a iModel s = generateClass fuel ae b iModel s"
  by (cases fuel) (simp_all add: MetaDataRegistry_find_def)

lemma getClass_key:
  "toLowerCase a = toLowerCase b \<Longrightarrow>
     getClass fuel ae a iModel s = getClass fuel ae b iModel s"
  by (simp only: getClass.simps generateClass_key [of a b fuel ae iModel s])

section \<open>The failure kinds\<close>

text \<open>
  C1, as stated, fails: the error \<^verbatim>\<open>makeClassNotFoundError\<close> builds and the
  error \<^verbatim>\<open>makeMetaDataNotFoundError\<close> builds are the same value, and each of the
  two predicates gives the same answer on both.
\<close>

theorem notFound_kinds_counterexample:
  "isClassNotFoundError makeClassNotFoundError = isClassNotFoundError makeMetaDataNotFoundError
   \<and> isMetaDataNotFoundError makeClassNotFoundError
       = isMetaDataNotFoundError makeMetaDataNotFoundError
   \<and> makeClassNotFoundError = makeMetaDataNotFoundError"
  by (simp add: makeClassNotFoundError_def makeMetaDataNotFoundError_def)

text \<open>
  C1, amended: \<open>BadArgument\<close> is told apart from the two not-found kinds (neither
  predicate accepts it), while the class-not-found and the metadata-not-found error
  are one and the same \<open>IModelError\<close> with status \<open>NotFound\<close>: both predicates
  accept both, and they agree on every error.
\<close>

theorem failure_kinds:
  "\<not> isClassNotFoundError (IModelError BadArg)
   \<and> \<not> isMetaDataNotFoundError (IModelError BadArg)
   \<and> isClassNotFoundError makeClassNotFoundError
   \<and> isMetaDataNotFoundError makeMetaDataNotFoundError
   \<and> makeClassNotFoundError = makeMetaDataNotFoundError
   \<and> (\<forall>e. isClassNotFoundError e = isMetaDataNotFoundError e)"
  by (simp add: isClassNotFoundError_def isMetaDataNotFoundError_def
      makeClassNotFoundError_def makeMetaDataNotFoundError_def)

section \<open>The metadata cache: round trip\<close>

text \<open>
  C9: after \<open>add n d\<close>, \<open>find n'\<close> returns \<open>d\<close> for every \<open>n'\<close> that differs
  from \<open>n\<close> only in letter case; an earlier \<open>add\<close> under a name \<open>m\<close> of the same
  normalized key is overwritten (last write wins); and \<open>find\<close> hands back the
  registry it was given.
\<close>

theorem MetaDataRegistry_add_find:
  assumes "differOnlyInCase n n'"
  shows "MetaDataRegistry_find n' (MetaDataRegistry_add n d registry)
           = (Some d, MetaDataRegistry_add n d registry)
         \<and> (differOnlyInCase m n \<longrightarrow>
              MetaDataRegistry_find n' (MetaDataRegistry_add n d (MetaDataRegistry_add m d0 registry))
                = (Some d, MetaDataRegistry_add n d (MetaDataRegistry_add m d0 registry)))
         \<and> snd (MetaDataRegistry_find k registry) = registry"
  using differOnlyInCase_toLowerCase [OF assms]
  by (simp add: MetaDataRegistry_find_def MetaDataRegistry_add_def)

theorem MetaDataRegistry_add_find_witness:
  "differOnlyInCase ''Foo:Bar'' ''foo:BAR''
   \<and> differOnlyInCase ''FOO:bar'' ''Foo:Bar''
   \<and> MetaDataRegistry_find ''foo:BAR''
        (MetaDataRegistry_add ''Foo:Bar'' \<lparr>ecclass = Some ''Foo:Bar'', baseClasses = Some []\<rparr>
          (MetaDataRegistry_add ''FOO:bar'' \<lparr>ecclass = None, baseClasses = None\<rparr> Map.empty))
      = (Some \<lparr>ecclass = Some ''Foo:Bar'', baseClasses = Some []\<rparr>,
         MetaDataRegistry_add ''Foo:Bar'' \<lparr>ecclass = Some ''Foo:Bar'', baseClasses = Some []\<rparr>
          (MetaDataRegistry_add ''FOO:bar'' \<lparr>ecclass = None, baseClasses = None\<rparr> Map.empty))"
proof -
  have a: "differOnlyInCase ''Foo:Bar'' ''foo:BAR''"
    by (simp add: differOnlyInCase_def sameLetter_def lowerChar_def isUpper_def)
  have b: "differOnlyInCase ''FOO:bar'' ''Foo:Bar''"
    by (simp add: differOnlyInCase_def sameLetter_def lowerChar_def isUpper_def)
  from MetaDataRegistry_add_find [OF a] a b show ?thesis by blast
qed

section \<open>createInstance without a class name\<close>

text \<open>
  C6: when the props carry no class name, or the empty one, \<open>createInstance\<close>
  fails with \<open>BadArg\<close> and the state it leaves is the state it was given, class
  map included.
\<close>

theorem createInstance_BadArg:
  "classFullName props = None \<or> classFullName props = Some [] \<Longrightarrow>
     createInstance fuel ae props iModel s = Some (Inl (IModelError BadArg), s)"
  by (auto simp add: createInstance_def)

theorem createInstance_BadArg_witness:
  "classFullName \<lparr>classFullName = Some ''''\<rparr> = Some []
   \<and> createInstance 0 True \<lparr>classFullName = Some ''''\<rparr> \<lparr>classMetaDataRegistry = Map.empty\<rparr>
        \<lparr>classMap = Map.empty, registeredSchemas = [], allocated = 0\<rparr>
      = Some (Inl (IModelError BadArg),
              \<lparr>classMap = Map.empty, registeredSchemas = [], allocated = 0\<rparr>)"
  using createInstance_BadArg [of "\<lparr>classFullName = Some ''''\<rparr>" 0 True
      "\<lparr>classMetaDataRegistry = Map.empty\<rparr>"
      "\<lparr>classMap = Map.empty, registeredSchemas = [], allocated = 0\<rparr>"]
  by simp

section \<open>Lookups that hit the class map\<close>

lemma getClass_miss:
  "classMap s (toLowerCase n) = None \<Longrightarrow>
     getClass fuel ae n iModel s = generateClass fuel ae n iModel s"
  by simp

lemma getClass_hit:
  "classMap s (toLowerCase n) = Some c \<Longrightarrow>
     getClass fuel ae n iModel s = Some (Inr (Some c), s)"
  by (simp add: js_assert_def)

text \<open>
  C10: when the class map has the normalized key, \<open>getClass\<close> returns the stored
  constructor and leaves the state alone, whatever the bound and whether assertions
  are on or off; neither the assertion nor the \<^verbatim>\<open>!ctor\<close> guard behind it fires.
  The map holds constructors only: its one writer, \<^verbatim>\<open>registerEcClass\<close>, reads
  \<^verbatim>\<open>ctor.schema.name\<close> before it stores \<^verbatim>\<open>ctor\<close>.
\<close>

theorem getClass_map_hit:
  "classMap s (toLowerCase fullName) \<noteq> None \<Longrightarrow>
     \<exists>ctor. classMap s (toLowerCase fullName) = Some ctor
       \<and> getClass fuel ae fullName iModel s = Some (Inr (Some ctor), s)"
  by (auto simp add: js_assert_def)

theorem getClass_map_hit_witness:
  "classMap handWritten (toLowerCase ''S:X'') \<noteq> None
   \<and> getClass 0 False ''S:X'' noMetaData handWritten = Some (Inr (Some classX), handWritten)"
proof -
  have h: "classMap handWritten (toLowerCase ''S:X'') = Some classX"
    by (simp add: handWritten_def registerEcClass_def classX_def getKey_def charDefs)
  with getClass_map_hit [of handWritten "''S:X''" 0 False noMetaData] show ?thesis
    by auto
qed

text \<open>
  In the empty registry, one call synthesizes the root class of the scenario.
\<close>

lemma getClass_Root:
  "getClass (Suc 0) True ''S:Root'' leafChain emptyRuntime = Some (Inr (Some classRoot), afterRoot)"
  by (simp add: leafChain_def emptyRuntime_def afterRoot_def classRoot_def
      MetaDataRegistry_find_def MetaDataRegistry_add_def
      generateClassForEntity_def generateClassFromMetaData_def js_eval_def Let_def
      js_index_text_def inFragment_def plainIdentifier_def quotable_def isIdentifierStart_def
      isIdentifierPart_def isLetter_def isDigit_def reservedWords_def outerNames_def
      generateProxySchema_def registerSchema_def registerSchema_dir_def
      getRegisteredSchema_def getRegisteredSchema_dir_def lookupClass_def registerEcClass_def
      getKey_def js_assert_def charDefs)

section \<open>Letter case of class names\<close>

text \<open>
  C5: for two names that differ only in letter case, \<open>getClass\<close> gives the same
  result and the same state, and \<open>lookupClass\<close> finds the same entry.
\<close>

theorem getClass_case_insensitive:
  "differOnlyInCase a b \<Longrightarrow>
     getClass fuel ae a iModel s = getClass fuel ae b iModel s
     \<and> lookupClass a s = lookupClass b s"
  using getClass_key [of a b fuel ae iModel s] differOnlyInCase_toLowerCase [of a b]
  by (simp add: lookupClass_def)

theorem getClass_case_insensitive_witness:
  "differOnlyInCase ''S:Root'' ''s:ROOT''
   \<and> getClass (Suc 0) True ''s:ROOT'' leafChain emptyRuntime
       = Some (Inr (Some classRoot), afterRoot)
   \<and> getClass (Suc 0) True ''S:Root'' leafChain emptyRuntime
       = Some (Inr (Some classRoot), afterRoot)
   \<and> lookupClass ''s:ROOT'' afterRoot = Some classRoot"
proof -
  have h: "differOnlyInCase ''S:Root'' ''s:ROOT''"
    by (simp add: differOnlyInCase_def sameLetter_def lowerChar_def isUpper_def)
  have look: "lookupClass ''S:Root'' afterRoot = Some classRoot"
    by (simp add: lookupClass_def afterRoot_def charDefs)
  from getClass_case_insensitive [OF h, of "Suc 0" True leafChain emptyRuntime]
    getClass_case_insensitive [OF h, of 0 True leafChain afterRoot]
    getClass_Root look h
  show ?thesis by simp
qed

section \<open>Missing metadata\<close>

text \<open>
  C2, as stated, fails: a class registered by hand needs no descriptor. With an
  empty provider, \<open>getClass\<close> on the registered \<open>S:X\<close> returns its constructor.
\<close>

theorem getClass_registered_counterexample:
  "fst (MetaDataRegistry_find ''S:X'' (classMetaDataRegistry noMetaData)) = None
   \<and> getClass (Suc 0) True ''S:X'' noMetaData handWritten = Some (Inr (Some classX), handWritten)"
  by (simp add: noMetaData_def MetaDataRegistry_find_def handWritten_def registerEcClass_def
      classX_def getKey_def charDefs js_assert_def Let_def)

text \<open>
  C2, amended: when the provider has no entry for \<open>X\<close> and \<open>X\<close> is not in the
  class map, \<open>getClass\<close> fails with the error of \<^verbatim>\<open>makeMetaDataNotFoundError\<close>
  and leaves the state as it was, so the class map still has no entry for \<open>X\<close>.
\<close>

theorem getClass_no_metadata:
  "fst (MetaDataRegistry_find X (classMetaDataRegistry iModel)) = None \<Longrightarrow>
   classMap s (toLowerCase X) = None \<Longrightarrow>
     getClass (Suc fuel) ae X iModel s = Some (Inl makeMetaDataNotFoundError, s)
     \<and> isMetaDataNotFoundError makeMetaDataNotFoundError"
  by (simp add: isMetaDataNotFoundError_def makeMetaDataNotFoundError_def)

theorem getClass_no_metadata_witness:
  "fst (MetaDataRegistry_find ''S:Nope'' (classMetaDataRegistry leafChain)) = None
   \<and> classMap emptyRuntime (toLowerCase ''S:Nope'') = None
   \<and> getClass (Suc 0) True ''S:Nope'' leafChain emptyRuntime
       = Some (Inl makeMetaDataNotFoundError, emptyRuntime)"
proof -
  have a: "fst (MetaDataRegistry_find ''S:Nope'' (classMetaDataRegistry leafChain)) = None"
    by (simp add: leafChain_def MetaDataRegistry_find_def MetaDataRegistry_add_def charDefs)
  have b: "classMap emptyRuntime (toLowerCase ''S:Nope'') = None"
    by (simp add: emptyRuntime_def)
  from getClass_no_metadata [OF a b, of 0 True] a b show ?thesis by blast
qed

section \<open>Termination of the generation path\<close>

lemma generateClass_more_fuel:
  "(generateClass fuel ae n iModel s = Some r \<longrightarrow> generateClass (Suc fuel) ae n iModel s = Some r)
   \<and> (getClass fuel ae n iModel s = Some r \<longrightarrow> getClass (Suc fuel) ae n iModel s = Some r)"
proof (induction fuel arbitrary: n r)
  case 0
  show ?case by (auto simp add: js_assert_def Let_def split: option.splits)
next
  case (Suc fuel)
  have g: "generateClass (Suc (Suc fuel)) ae n iModel s = Some r"
    if "generateClass (Suc fuel) ae n iModel s = Some r"
  proof (cases "fst (MetaDataRegistry_find n (classMetaDataRegistry iModel))")
    case None
    with that show ?thesis by simp
  next
    case (Some md)
    show ?thesis
    proof (cases "\<exists>b bs. baseClasses md = Some (b # bs) \<and> ecclass md \<noteq> None")
      case False
      with that Some show ?thesis
        by (auto split: option.splits list.splits)
    next
      case True
      then obtain b bs where b: "baseClasses md = Some (b # bs)" "ecclass md \<noteq> None" by blast
      from that Some b obtain r' where r': "getClass fuel ae b iModel s = Some r'"
        by (auto simp del: getClass.simps split: option.splits)
      with Suc.IH have "getClass (Suc fuel) ae b iModel s = Some r'" by blast
      with that Some b r' show ?thesis
        by (auto simp del: getClass.simps)
    qed
  qed
  then show ?case
    by (auto simp add: Let_def simp del: generateClass.simps)
qed

lemma openBase_None:
  "openBase iModel s n = None \<Longrightarrow> \<exists>r. getClass (Suc fuel) ae n iModel s = Some r"
  by (cases "classMap s (toLowerCase n)";
      cases "fst (MetaDataRegistry_find n (classMetaDataRegistry iModel))")
     (auto simp add: openBase_def js_assert_def Let_def split: option.splits list.splits if_splits)

lemma openBase_Some:
  "openBase iModel s n = Some b \<Longrightarrow>
     classMap s (toLowerCase n) = None
     \<and> (\<exists>md bs. fst (MetaDataRegistry_find n (classMetaDataRegistry iModel)) = Some md
           \<and> ecclass md \<noteq> None \<and> baseClasses md = Some (b # bs))"
  by (auto simp add: openBase_def split: option.splits list.splits if_splits)

lemma getClass_returns:
  "chainEndsWithin k iModel s n \<Longrightarrow> \<exists>r. getClass (Suc k) ae n iModel s = Some r"
proof (induction k arbitrary: n)
  case 0
  then show ?case using openBase_None [of iModel s n 0 ae] by simp
next
  case (Suc k)
  show ?case
  proof (cases "openBase iModel s n")
    case None
    then show ?thesis by (rule openBase_None)
  next
    case (Some b)
    from openBase_Some [OF Some] obtain md bs where md: "classMap s (toLowerCase n) = None"
      "fst (MetaDataRegistry_find n (classMetaDataRegistry iModel)) = Some md"
      "ecclass md \<noteq> None" "baseClasses md = Some (b # bs)" by blast
    from Suc.prems Some have "chainEndsWithin k iModel s b" by simp
    from Suc.IH [OF this] obtain r where "getClass (Suc k) ae b iModel s = Some r" by blast
    with md show ?thesis
      by (cases r; cases "fst r") (auto simp add: getClass_miss simp del: getClass.simps)
  qed
qed

text \<open>
  C8: when the chain of primary base classes from \<open>n\<close> ends within \<open>k\<close> links
  (at a registered class, at a class without base classes, or at a name the provider
  does not describe), \<open>getClass\<close> returns once the bound exceeds \<open>k\<close>, and every
  larger bound gives the same result.
\<close>

theorem generation_terminates:
  assumes "chainEndsWithin k iModel s n"
  shows "\<exists>r. \<forall>j. getClass (Suc k + j) ae n iModel s = Some r"
proof -
  from getClass_returns [OF assms] obtain r where r: "getClass (Suc k) ae n iModel s = Some r"
    by blast
  have "getClass (Suc k + j) ae n iModel s = Some r" for j
  proof (induction j)
    case 0
    with r show ?case by simp
  next
    case (Suc j)
    with generateClass_more_fuel [of "Suc k + j" ae n iModel s r] show ?case
      by (simp del: getClass.simps generateClass.simps)
  qed
  then show ?thesis by blast
qed

theorem generation_terminates_witness:
  "chainEndsWithin 2 leafChain emptyRuntime ''S:Leaf''
   \<and> (\<exists>r. \<forall>j. getClass (Suc 2 + j) True ''S:Leaf'' leafChain emptyRuntime = Some r)"
proof -
  have h: "chainEndsWithin 2 leafChain emptyRuntime ''S:Leaf''"
    by (simp add: openBase_def eval_nat_numeral leafChain_def emptyRuntime_def
        MetaDataRegistry_find_def MetaDataRegistry_add_def toLowerCase_def lowerChar_def
        isUpper_def)
  from generation_terminates [OF h, of True] h show ?thesis by blast
qed

section \<open>Evaluating well-formed generated text\<close>

text \<open>
  For a descriptor whose \<^verbatim>\<open>ecclass\<close> is \<open>schema:class\<close> with plain identifiers
  on both sides, different from each other, and whose first base class (if it lists
  one) is in the class map, \<open>generateClassForEntity\<close> succeeds: it registers the
  schema if need be, synthesizes one constructor and stores it under the normalized
  \<^verbatim>\<open>ecclass\<close>.
\<close>

lemma registerSchema_classMap [simp]:
  "classMap (registerSchema schema s) = classMap s"
  "allocated (registerSchema schema s) = allocated s"
  by (simp_all add: registerSchema_def)

lemma lookupClass_registerSchema [simp]:
  "lookupClass b (registerSchema schema s) = lookupClass b s"
  by (simp add: lookupClass_def)

lemma isIdentifierPart_plain:
  "isIdentifierPart c \<Longrightarrow>
     c \<noteq> CHR '':'' \<and> c \<noteq> CHR 0x27 \<and> c \<noteq> CHR 0x5C \<and> c \<noteq> CHR 0x0A \<and> c \<noteq> CHR 0x0D"
  by (auto simp add: isIdentifierPart_def isIdentifierStart_def isLetter_def isDigit_def
      isUpper_def)

lemma plainIdentifier_parts: "plainIdentifier n \<Longrightarrow> list_all isIdentifierPart n"
  by (cases n) (auto simp add: plainIdentifier_def isIdentifierPart_def)

lemma plainIdentifier_no_colon: "plainIdentifier n \<Longrightarrow> CHR '':'' \<notin> set n"
  using plainIdentifier_parts [of n] isIdentifierPart_plain
  by (auto simp add: list_all_iff)

lemma plainIdentifier_quotable: "plainIdentifier n \<Longrightarrow> quotable n"
  using plainIdentifier_parts [of n] isIdentifierPart_plain
  by (auto simp add: list_all_iff quotable_def)

lemma js_split_nonempty: "js_split sep str \<noteq> []"
  by (induction str) (auto split: list.splits)

lemma js_split_single: "sep \<notin> set w \<Longrightarrow> js_split sep w = [w]"
  by (induction w) auto

lemma js_split_append:
  "sep \<notin> set a \<Longrightarrow> js_split sep (a @ sep # rest) = a # js_split sep rest"
  by (induction a) (auto split: list.splits)

lemma js_split_fullName:
  "plainIdentifier sn \<Longrightarrow> plainIdentifier cn \<Longrightarrow>
     js_split CHR '':'' (sn @ '':'' @ cn) = [sn, cn]"
  using js_split_append [of "CHR '':''" sn cn] js_split_single [of "CHR '':''" cn]
    plainIdentifier_no_colon
  by simp

lemma getRegisteredSchema_name:
  "getRegisteredSchema sn s = Some schema \<Longrightarrow> schema = \<lparr>schema_name = sn\<rparr>"
  by (auto simp add: getRegisteredSchema_def getRegisteredSchema_dir_def find_Some_iff)

lemma getRegisteredSchema_registerSchema:
  "getRegisteredSchema sn (registerSchema \<lparr>schema_name = sn\<rparr> s) = Some \<lparr>schema_name = sn\<rparr>"
  by (simp add: getRegisteredSchema_def getRegisteredSchema_dir_def registerSchema_def
      registerSchema_dir_def)

lemma js_eval_generated:
  assumes "plainIdentifier sn" "plainIdentifier cn" "sn \<noteq> cn"
    and "hasBase \<longrightarrow> (\<exists>b bs. baseClasses md = Some (b # bs) \<and> lookupClass b s = Some base)"
  shows "js_eval md
           ((if getRegisteredSchema sn s \<noteq> None then [] else generateProxySchema sn)
              @ [ClassDecl cn hasBase, AssignSchema cn sn, CallRegisterEcClass cn]) s
         = (Inr (),
            (withSchema sn s)\<lparr>allocated := Suc (allocated s),
               classMap := (classMap s)(toLowerCase (sn @ '':'' @ cn) \<mapsto>
                  synthesized sn cn (if hasBase then Some (ctor_id base) else None) s)\<rparr>)"
proof (cases "getRegisteredSchema sn s")
  case None
  have frag: "inFragment [ProxySchemaDecl sn, CallRegisterSchema sn, ClassDecl cn hasBase,
      AssignSchema cn sn, CallRegisterEcClass cn]"
    using assms(1,2) plainIdentifier_quotable [of sn] by (simp add: inFragment_def)
  from None assms(3,4) frag show ?thesis
    by (cases hasBase)
       (auto simp add: js_eval_def generateProxySchema_def lookupClass_def
        getRegisteredSchema_def getRegisteredSchema_dir_def registerSchema_dir_def
        registerEcClass_def getKey_def synthesized_def withSchema_def registerSchema_def)
next
  case (Some schema)
  then have schema: "schema = \<lparr>schema_name = sn\<rparr>" by (rule getRegisteredSchema_name)
  have frag: "inFragment [ClassDecl cn hasBase, AssignSchema cn sn, CallRegisterEcClass cn]"
    using assms(1,2) plainIdentifier_quotable [of sn] by (simp add: inFragment_def)
  from Some schema assms(4) frag show ?thesis
    by (cases hasBase)
       (auto simp add: js_eval_def registerEcClass_def getKey_def synthesized_def withSchema_def
        lookupClass_def getRegisteredSchema_def getRegisteredSchema_dir_def)
qed


lemma generateClassForEntity_wellformed:
  assumes "plainIdentifier sn" "plainIdentifier cn" "sn \<noteq> cn"
    and "ecclass md = Some (sn @ '':'' @ cn)"
    and "baseClasses md = Some bases"
    and "bases \<noteq> [] \<longrightarrow> lookupClass (hd bases) s = Some base"
  shows "generateClassForEntity ae md s =
           (Inr (Some (synthesized sn cn (if bases \<noteq> [] then Some (ctor_id base) else None) s)),
            (withSchema sn s)\<lparr>allocated := Suc (allocated s),
               classMap := (classMap s)(toLowerCase (sn @ '':'' @ cn) \<mapsto>
                  synthesized sn cn (if bases \<noteq> [] then Some (ctor_id base) else None) s)\<rparr>)"
proof -
  have split: "js_split CHR '':'' (sn @ '':'' @ cn) = [sn, cn]"
    using assms(1,2) by (rule js_split_fullName)
  have gen: "generateClassFromMetaData md s =
      Inr ((if getRegisteredSchema sn s \<noteq> None then [] else generateProxySchema sn)
             @ [ClassDecl cn (bases \<noteq> []), AssignSchema cn sn])"
    using assms(4,5) split
    by (simp add: generateClassFromMetaData_def js_index_text_def Let_def)
  have base: "bases \<noteq> [] \<longrightarrow>
      (\<exists>b bs. baseClasses md = Some (b # bs) \<and> lookupClass b s = Some base)"
    using assms(5,6) by (cases bases) auto
  note ev = js_eval_generated [OF assms(1-3) base]
  show ?thesis
    using assms(4) split gen ev
    by (simp add: generateClassForEntity_def js_index_text_def Let_def lookupClass_def
        js_assert_def)
qed

lemma generateClass_step:
  assumes "fst (MetaDataRegistry_find n (classMetaDataRegistry iModel)) = Some md"
    and "ecclass md = Some ec"
    and "baseClasses md = Some (b # bs)"
    and "getClass fuel ae b iModel s = Some (Inr x, s1)"
  shows "generateClass (Suc fuel) ae n iModel s = Some (generateClassForEntity ae md s1)"
  using assms by (simp del: getClass.simps)

lemma generateClass_root:
  assumes "fst (MetaDataRegistry_find n (classMetaDataRegistry iModel)) = Some md"
    and "ecclass md = Some ec"
    and "baseClasses md = Some []"
  shows "generateClass (Suc fuel) ae n iModel s = Some (generateClassForEntity ae md s)"
  using assms by simp

lemma generateClassForEntity_returned:
  "generateClassForEntity ae md s = (Inr (Some ctor), s') \<Longrightarrow>
     \<exists>ec. ecclass md = Some ec \<and> lookupClass ec s' = Some ctor"
  by (auto simp add: generateClassForEntity_def Let_def js_assert_def
      split: option.splits sum.splits prod.splits if_splits)

lemma generateClass_returned:
  assumes "generateClass fuel ae n iModel s = Some (Inr (Some ctor), s')"
  shows "\<exists>md ec. fst (MetaDataRegistry_find n (classMetaDataRegistry iModel)) = Some md
           \<and> ecclass md = Some ec \<and> lookupClass ec s' = Some ctor"
proof (cases fuel)
  case 0
  with assms show ?thesis by simp
next
  case (Suc k)
  with assms obtain md s1 where md:
    "fst (MetaDataRegistry_find n (classMetaDataRegistry iModel)) = Some md"
    "generateClassForEntity ae md s1 = (Inr (Some ctor), s')"
    by (auto simp add: makeMetaDataNotFoundError_def simp del: getClass.simps
        split: option.splits sum.splits prod.splits if_splits)
  from generateClassForEntity_returned [OF md(2)] md(1) show ?thesis by blast
qed

section \<open>The text of the generated program\<close>

text \<open>
  The statements print as the source concatenates them: the proxy schema, then
  \<^verbatim>\<open>"class " + className + " " + classExtends + " { } " + classStaticProps\<close>,
  then the call \<^verbatim>\<open>generateClassForEntity\<close> appends.
\<close>

lemma generateProxySchema_text:
  "js_text (generateProxySchema schemaName)
     = ''class '' @ schemaName @ '' extends ClassRegistry.getSchemaBaseClass(){}''
       @ '' ClassRegistry.registerSchema('' @ schemaName @ '');''"
  by (simp add: js_text_def generateProxySchema_def)

lemma generated_class_text:
  "js_text [ClassDecl className hasBase, AssignSchema className schema,
            CallRegisterEcClass className]
     = ''class '' @ className @ '' ''
       @ (if hasBase then ''extends ClassRegistry.lookupClass(entityMetaData.baseClasses[0])''
          else [])
       @ '' { } ''
       @ className @ ''.schema = ClassRegistry.getRegisteredSchema('' @ [CHR 0x27] @ schema
       @ [CHR 0x27] @ '');''
       @ '' ClassRegistry.registerEcClass('' @ className @ ''); ''"
  by (simp add: js_text_def)

section \<open>Base before derived\<close>

text \<open>
  C7: \<open>generateClassForEntity\<close> is the one place of the generation path that
  synthesizes and registers a constructor. Whenever a run of it on a descriptor with a
  non-empty base-class list synthesizes a constructor or changes the class map, the
  first base class was in the class map when the run began (nothing before the class
  declaration touches the map), exactly one constructor was synthesized, and every
  entry the run added to the map is that constructor, extending the registered base.
\<close>

theorem base_registered_before_derived:
  assumes "generateClassForEntity ae md s = (r, s')"
    and "baseClasses md = Some (b # bs)"
    and "classMap s' \<noteq> classMap s \<or> allocated s' \<noteq> allocated s"
  shows "\<exists>base. lookupClass b s = Some base
           \<and> allocated s' = Suc (allocated s)
           \<and> (\<forall>key ctor. classMap s' key = Some ctor \<and> classMap s key \<noteq> Some ctor
                 \<longrightarrow> ctor_id ctor = allocated s \<and> ctor_extends ctor = Some (ctor_id base))"
  using assms
  apply (cases "lookupClass b s")
  apply (auto simp add: generateClassForEntity_def generateClassFromMetaData_def js_eval_def Let_def
      generateProxySchema_def registerEcClass_def js_assert_def
      split: option.splits sum.splits prod.splits if_splits)
  done

theorem base_registered_before_derived_witness:
  "generateClassForEntity True midDescriptor afterRoot
     = (Inr (Some classMid), afterRoot\<lparr>allocated := 2, classMap := (classMap afterRoot)(''s:mid'' \<mapsto> classMid)\<rparr>)
   \<and> baseClasses midDescriptor = Some [''S:Root'']
   \<and> lookupClass ''S:Root'' afterRoot = Some classRoot
   \<and> ctor_extends classMid = Some (ctor_id classRoot)"
proof -
  have run: "generateClassForEntity True midDescriptor afterRoot
     = (Inr (Some classMid), afterRoot\<lparr>allocated := 2, classMap := (classMap afterRoot)(''s:mid'' \<mapsto> classMid)\<rparr>)"
    by (simp add: generateClassForEntity_def generateClassFromMetaData_def js_eval_def Let_def
        midDescriptor_def afterRoot_def classMid_def classRoot_def js_index_text_def
        inFragment_def plainIdentifier_def quotable_def isIdentifierStart_def
        isIdentifierPart_def isLetter_def isDigit_def reservedWords_def outerNames_def
        getRegisteredSchema_def getRegisteredSchema_dir_def lookupClass_def registerEcClass_def
        getKey_def js_assert_def charDefs)
  have bases: "baseClasses midDescriptor = Some [''S:Root'']"
    by (simp add: midDescriptor_def)
  have changed: "classMap (afterRoot\<lparr>allocated := 2, classMap := (classMap afterRoot)(''s:mid'' \<mapsto> classMid)\<rparr>) \<noteq> classMap afterRoot
      \<or> allocated (afterRoot\<lparr>allocated := 2, classMap := (classMap afterRoot)(''s:mid'' \<mapsto> classMid)\<rparr>) \<noteq> allocated afterRoot"
    by (simp add: afterRoot_def)
  from base_registered_before_derived [OF run bases changed]
  obtain base where base: "lookupClass ''S:Root'' afterRoot = Some base"
    "\<forall>key ctor. classMap (afterRoot\<lparr>allocated := 2, classMap := (classMap afterRoot)(''s:mid'' \<mapsto> classMid)\<rparr>) key = Some ctor
        \<and> classMap afterRoot key \<noteq> Some ctor
        \<longrightarrow> ctor_id ctor = allocated afterRoot \<and> ctor_extends ctor = Some (ctor_id base)"
    by blast
  have root: "lookupClass ''S:Root'' afterRoot = Some classRoot"
    by (simp add: lookupClass_def afterRoot_def charDefs)
  from base(2) [rule_format, of "''s:mid''" classMid] base(1) root
  have "ctor_extends classMid = Some (ctor_id classRoot)"
    by (simp add: afterRoot_def classMid_def classRoot_def)
  with run bases root show ?thesis by blast
qed

section \<open>Synthesis along a chain of three classes\<close>

text \<open>
  Let \<open>A\<close>, \<open>B\<close> and \<open>C\<close> be class full names \<open>schema:class\<close> whose
  schema and class names are plain identifiers, the class name different from the
  schema name. Let the provider hold, under each name, a descriptor with that name as
  its \<^verbatim>\<open>ecclass\<close>: \<open>A\<close> with an empty base-class list, \<open>B\<close> with first base
  class \<open>A\<close>, \<open>C\<close> with first base class \<open>B\<close>; and let none of the three be in
  the class map. Then one call of \<open>getClass\<close> on \<open>C\<close> (with a bound of three or
  more nested calls) returns a constructor for \<open>C\<close>; afterwards all three are in the
  class map, the constructor of \<open>A\<close> extends nothing, the constructor of \<open>B\<close>
  extends that of \<open>A\<close>, the constructor of \<open>C\<close> extends that of \<open>B\<close>, and the
  three are different objects.
\<close>

theorem topological_synthesis:
  assumes A: "plainIdentifier sA" "plainIdentifier cA" "sA \<noteq> cA"
    and B: "plainIdentifier sB" "plainIdentifier cB" "sB \<noteq> cB"
    and C: "plainIdentifier sC" "plainIdentifier cC" "sC \<noteq> cC"
    and mdA: "fst (MetaDataRegistry_find (qualifiedName sA cA) (classMetaDataRegistry iModel)) = Some mA"
      "ecclass mA = Some (qualifiedName sA cA)" "baseClasses mA = Some []"
    and mdB: "fst (MetaDataRegistry_find (qualifiedName sB cB) (classMetaDataRegistry iModel)) = Some mB"
      "ecclass mB = Some (qualifiedName sB cB)" "baseClasses mB = Some (qualifiedName sA cA # restB)"
    and mdC: "fst (MetaDataRegistry_find (qualifiedName sC cC) (classMetaDataRegistry iModel)) = Some mC"
      "ecclass mC = Some (qualifiedName sC cC)" "baseClasses mC = Some (qualifiedName sB cB # restC)"
    and unregistered: "lookupClass (qualifiedName sA cA) s = None" "lookupClass (qualifiedName sB cB) s = None"
      "lookupClass (qualifiedName sC cC) s = None"
  shows "\<exists>ctorA ctorB ctorC s'.
           getClass (Suc (Suc (Suc fuel))) ae (qualifiedName sC cC) iModel s = Some (Inr (Some ctorC), s')
           \<and> lookupClass (qualifiedName sA cA) s' = Some ctorA
           \<and> lookupClass (qualifiedName sB cB) s' = Some ctorB
           \<and> lookupClass (qualifiedName sC cC) s' = Some ctorC
           \<and> ctor_extends ctorA = None
           \<and> ctor_extends ctorB = Some (ctor_id ctorA)
           \<and> ctor_extends ctorC = Some (ctor_id ctorB)
           \<and> ctor_id ctorA \<noteq> ctor_id ctorB \<and> ctor_id ctorB \<noteq> ctor_id ctorC
           \<and> ctor_id ctorA \<noteq> ctor_id ctorC"
proof -
  let ?A = "qualifiedName sA cA" and ?B = "qualifiedName sB cB" and ?C = "qualifiedName sC cC"
  let ?kA = "toLowerCase ?A" and ?kB = "toLowerCase ?B" and ?kC = "toLowerCase ?C"
  have AB: "?kA \<noteq> ?kB"
    using mdA mdB by (auto simp add: MetaDataRegistry_find_def)
  have AC: "?kA \<noteq> ?kC"
    using mdA mdC by (auto simp add: MetaDataRegistry_find_def)
  have BC: "?kB \<noteq> ?kC"
  proof
    assume eq: "?kB = ?kC"
    with mdB(1) mdC(1) have "mB = mC" by (simp add: MetaDataRegistry_find_def)
    with mdB(3) mdC(3) have "?A = ?B" by simp
    with AB show False by simp
  qed
  define ctorA where "ctorA = synthesized sA cA None s"
  define s1 where "s1 = (withSchema sA s)\<lparr>allocated := Suc (allocated s),
      classMap := (classMap s)(?kA \<mapsto> ctorA)\<rparr>"
  define ctorB where "ctorB = synthesized sB cB (Some (ctor_id ctorA)) s1"
  define s2 where "s2 = (withSchema sB s1)\<lparr>allocated := Suc (allocated s1),
      classMap := (classMap s1)(?kB \<mapsto> ctorB)\<rparr>"
  define ctorC where "ctorC = synthesized sC cC (Some (ctor_id ctorB)) s2"
  define s3 where "s3 = (withSchema sC s2)\<lparr>allocated := Suc (allocated s2),
      classMap := (classMap s2)(?kC \<mapsto> ctorC)\<rparr>"
  have alloc1: "allocated s1 = Suc (allocated s)" by (simp add: s1_def)
  have alloc2: "allocated s2 = Suc (Suc (allocated s))" by (simp add: s2_def alloc1)
  have map1: "classMap s1 = (classMap s)(?kA \<mapsto> ctorA)" by (simp add: s1_def)
  have map2: "classMap s2 = (classMap s)(?kA \<mapsto> ctorA, ?kB \<mapsto> ctorB)"
    by (simp add: s2_def map1)
  have map3: "classMap s3 = (classMap s)(?kA \<mapsto> ctorA, ?kB \<mapsto> ctorB, ?kC \<mapsto> ctorC)"
    by (simp add: s3_def map2)
  have genA: "generateClassForEntity ae mA s = (Inr (Some ctorA), s1)"
    using generateClassForEntity_wellformed [OF A, of mA "[]" s ctorA ae] mdA(2,3)
    by (simp add: qualifiedName_def ctorA_def s1_def)
  have getA: "getClass (Suc fuel) ae ?A iModel s = Some (Inr (Some ctorA), s1)"
    using unregistered(1) generateClass_root [OF mdA, of fuel ae s] genA
    by (simp add: lookupClass_def getClass_miss del: getClass.simps generateClass.simps)
  have lookA: "lookupClass ?A s1 = Some ctorA"
    by (simp add: lookupClass_def map1)
  have genB: "generateClassForEntity ae mB s1 = (Inr (Some ctorB), s2)"
    using generateClassForEntity_wellformed [OF B, of mB "?A # restB" s1 ctorA ae] mdB(2,3) lookA
    by (simp add: qualifiedName_def ctorB_def s2_def)
  have missB: "classMap s (toLowerCase ?B) = None"
    using unregistered(2) by (simp add: lookupClass_def)
  have getB: "getClass (Suc (Suc fuel)) ae ?B iModel s = Some (Inr (Some ctorB), s2)"
    using generateClass_step [OF mdB getA] genB getClass_miss [OF missB]
    by (simp del: getClass.simps generateClass.simps)
  have lookB: "lookupClass ?B s2 = Some ctorB"
    by (simp add: lookupClass_def map2)
  have genC: "generateClassForEntity ae mC s2 = (Inr (Some ctorC), s3)"
    using generateClassForEntity_wellformed [OF C, of mC "?B # restC" s2 ctorB ae] mdC(2,3) lookB
    by (simp add: qualifiedName_def ctorC_def s3_def)
  have missC: "classMap s (toLowerCase ?C) = None"
    using unregistered(3) by (simp add: lookupClass_def)
  have getC: "getClass (Suc (Suc (Suc fuel))) ae ?C iModel s = Some (Inr (Some ctorC), s3)"
    using generateClass_step [OF mdC getB] genC getClass_miss [OF missC]
    by (simp del: getClass.simps generateClass.simps)
  have looks: "lookupClass ?A s3 = Some ctorA" "lookupClass ?B s3 = Some ctorB"
    "lookupClass ?C s3 = Some ctorC"
    using AB AC BC by (simp_all add: lookupClass_def map3)
  have links: "ctor_extends ctorA = None" "ctor_extends ctorB = Some (ctor_id ctorA)"
    "ctor_extends ctorC = Some (ctor_id ctorB)"
    by (simp_all add: ctorA_def ctorB_def ctorC_def synthesized_def)
  have ids: "ctor_id ctorA = allocated s" "ctor_id ctorB = Suc (allocated s)"
    "ctor_id ctorC = Suc (Suc (allocated s))"
    by (simp_all add: ctorA_def ctorB_def ctorC_def synthesized_def alloc1 alloc2)
  from getC looks links ids show ?thesis by auto
qed

text \<open>
  The scenario of the specification is an instance: \<open>S:Leaf\<close> on \<open>S:Mid\<close> on
  \<open>S:Root\<close>, in the empty registry.
\<close>

theorem topological_synthesis_leafChain:
  "plainIdentifier ''S'' \<and> plainIdentifier ''Root'' \<and> plainIdentifier ''Mid''
   \<and> plainIdentifier ''Leaf''
   \<and> lookupClass ''S:Root'' emptyRuntime = None \<and> lookupClass ''S:Mid'' emptyRuntime = None
   \<and> lookupClass ''S:Leaf'' emptyRuntime = None
   \<and> (\<exists>ctorA ctorB ctorC s'.
         getClass (Suc (Suc (Suc 0))) True ''S:Leaf'' leafChain emptyRuntime
           = Some (Inr (Some ctorC), s')
         \<and> lookupClass ''S:Root'' s' = Some ctorA
         \<and> lookupClass ''S:Mid'' s' = Some ctorB
         \<and> lookupClass ''S:Leaf'' s' = Some ctorC
         \<and> ctor_extends ctorA = None
         \<and> ctor_extends ctorB = Some (ctor_id ctorA)
         \<and> ctor_extends ctorC = Some (ctor_id ctorB)
         \<and> ctor_id ctorA \<noteq> ctor_id ctorB \<and> ctor_id ctorB \<noteq> ctor_id ctorC
         \<and> ctor_id ctorA \<noteq> ctor_id ctorC)"
proof -
  have ids: "plainIdentifier ''S''" "plainIdentifier ''Root''" "plainIdentifier ''Mid''"
    "plainIdentifier ''Leaf''"
    by (simp_all add: plainIdentifier_def isIdentifierStart_def isIdentifierPart_def
        isLetter_def isDigit_def isUpper_def reservedWords_def outerNames_def)
  have ne: "''S'' \<noteq> ''Root''" "''S'' \<noteq> ''Mid''" "''S'' \<noteq> ''Leaf''" by simp_all
  have names: "qualifiedName ''S'' ''Root'' = ''S:Root''" "qualifiedName ''S'' ''Mid'' = ''S:Mid''"
    "qualifiedName ''S'' ''Leaf'' = ''S:Leaf''"
    by (simp_all add: qualifiedName_def)
  have found:
    "fst (MetaDataRegistry_find ''S:Root'' (classMetaDataRegistry leafChain))
       = Some \<lparr>ecclass = Some ''S:Root'', baseClasses = Some []\<rparr>"
    "fst (MetaDataRegistry_find ''S:Mid'' (classMetaDataRegistry leafChain))
       = Some \<lparr>ecclass = Some ''S:Mid'', baseClasses = Some [''S:Root'']\<rparr>"
    "fst (MetaDataRegistry_find ''S:Leaf'' (classMetaDataRegistry leafChain))
       = Some \<lparr>ecclass = Some ''S:Leaf'', baseClasses = Some [''S:Mid'']\<rparr>"
    by (simp_all add: leafChain_def MetaDataRegistry_find_def MetaDataRegistry_add_def charDefs)
  have un: "lookupClass ''S:Root'' emptyRuntime = None" "lookupClass ''S:Mid'' emptyRuntime = None"
    "lookupClass ''S:Leaf'' emptyRuntime = None"
    by (simp_all add: lookupClass_def emptyRuntime_def)
  from topological_synthesis [of "''S''" "''Root''" "''S''" "''Mid''" "''S''" "''Leaf''" leafChain
      "\<lparr>ecclass = Some ''S:Root'', baseClasses = Some []\<rparr>"
      "\<lparr>ecclass = Some ''S:Mid'', baseClasses = Some [''S:Root'']\<rparr>" "[]"
      "\<lparr>ecclass = Some ''S:Leaf'', baseClasses = Some [''S:Mid'']\<rparr>" "[]"
      emptyRuntime 0 True]
    ids ne found un
  have "\<exists>ctorA ctorB ctorC s'.
         getClass (Suc (Suc (Suc 0))) True ''S:Leaf'' leafChain emptyRuntime
           = Some (Inr (Some ctorC), s')
         \<and> lookupClass ''S:Root'' s' = Some ctorA
         \<and> lookupClass ''S:Mid'' s' = Some ctorB
         \<and> lookupClass ''S:Leaf'' s' = Some ctorC
         \<and> ctor_extends ctorA = None
         \<and> ctor_extends ctorB = Some (ctor_id ctorA)
         \<and> ctor_extends ctorC = Some (ctor_id ctorB)
         \<and> ctor_id ctorA \<noteq> ctor_id ctorB \<and> ctor_id ctorB \<noteq> ctor_id ctorC
         \<and> ctor_id ctorA \<noteq> ctor_id ctorC"
    by (simp add: names del: getClass.simps generateClass.simps)
  with ids un show ?thesis by blast
qed

text \<open>
  C3 says that one \<^verbatim>\<open>getClass("C")\<close> registers \<open>A\<close>, \<open>B\<close> and \<open>C\<close> whenever
  \<open>C\<close> has primary base \<open>B\<close>, \<open>B\<close> has primary base \<open>A\<close>, \<open>A\<close> has no base
  class and none of the three is registered. The code does not do so when the root
  class has the name of its schema and the schema is not registered yet: for the
  class \<open>X\<close> of the schema \<open>X\<close> the generated text declares the proxy schema class
  \<open>X\<close> and then the entity class \<open>X\<close>, and declaring a name twice is a
  \<open>SyntaxError\<close>. \<^verbatim>\<open>getClass("X:C")\<close> fails with it, whether assertions are
  on or off, and leaves the registry empty.
\<close>

theorem same_name_class_not_synthesized:
  "js_text [ProxySchemaDecl ''X'', CallRegisterSchema ''X'', ClassDecl ''X'' False,
            AssignSchema ''X'' ''X'', CallRegisterEcClass ''X'']
     = ''class X extends ClassRegistry.getSchemaBaseClass(){} ClassRegistry.registerSchema(X);'' @
       ''class X  { } X.schema = ClassRegistry.getRegisteredSchema('' @ [CHR 0x27] @ ''X'' @
       [CHR 0x27] @ ''); ClassRegistry.registerEcClass(X); ''
   \<and> generateClassFromMetaData sameNameRoot emptyRuntime
       = Inr [ProxySchemaDecl ''X'', CallRegisterSchema ''X'', ClassDecl ''X'' False,
              AssignSchema ''X'' ''X'']
   \<and> generateClassForEntity True sameNameRoot emptyRuntime = (Inl SyntaxError, emptyRuntime)
   \<and> getClass (Suc (Suc (Suc 0))) True ''X:C'' sameNameChain emptyRuntime
       = Some (Inl SyntaxError, emptyRuntime)
   \<and> getClass (Suc (Suc (Suc 0))) False ''X:C'' sameNameChain emptyRuntime
       = Some (Inl SyntaxError, emptyRuntime)
   \<and> lookupClass ''X:X'' emptyRuntime = None \<and> lookupClass ''X:B'' emptyRuntime = None
   \<and> lookupClass ''X:C'' emptyRuntime = None"
  by (simp add: sameNameChain_def sameNameRoot_def emptyRuntime_def js_text_def
      MetaDataRegistry_find_def MetaDataRegistry_add_def
      generateClassForEntity_def generateClassFromMetaData_def js_eval_def Let_def
      js_index_text_def inFragment_def plainIdentifier_def quotable_def isIdentifierStart_def
      isIdentifierPart_def isLetter_def isDigit_def reservedWords_def outerNames_def
      generateProxySchema_def registerSchema_def registerSchema_dir_def
      getRegisteredSchema_def getRegisteredSchema_dir_def lookupClass_def registerEcClass_def
      getKey_def js_assert_def charDefs)

section \<open>Looking a class up twice\<close>

text \<open>
  C4, as stated, fails: the key a synthesized class is registered under comes from
  the descriptor's \<^verbatim>\<open>ecclass\<close>, not from the name asked for. With a provider that
  holds the descriptor of \<open>S:Y\<close> under the name \<open>S:X\<close>, a first
  \<^verbatim>\<open>getClass("S:X")\<close> succeeds and registers \<open>s:y\<close>; a second call misses
  the map again, synthesizes again, and returns a different constructor.
\<close>

theorem getClass_twice_counterexample:
  "getClass (Suc 0) True ''S:X'' misfiled emptyRuntime = Some (Inr (Some firstY), afterFirst)
   \<and> getClass (Suc 0) True ''S:X'' misfiled afterFirst = Some (Inr (Some secondY), afterSecond)
   \<and> ctor_id firstY \<noteq> ctor_id secondY
   \<and> allocated afterSecond = Suc (allocated afterFirst)
   \<and> getClass 0 True ''S:X'' misfiled afterFirst = None"
  by (simp add: misfiled_def emptyRuntime_def afterFirst_def afterSecond_def firstY_def
      secondY_def MetaDataRegistry_find_def MetaDataRegistry_add_def
      generateClassForEntity_def generateClassFromMetaData_def js_eval_def Let_def
      js_index_text_def inFragment_def plainIdentifier_def quotable_def isIdentifierStart_def
      isIdentifierPart_def isLetter_def isDigit_def reservedWords_def outerNames_def
      generateProxySchema_def registerSchema_def registerSchema_dir_def
      getRegisteredSchema_def getRegisteredSchema_dir_def lookupClass_def registerEcClass_def
      getKey_def js_assert_def charDefs)

text \<open>
  C4, amended: when the descriptor the provider holds under \<open>n\<close> is filed under its
  own name, and a first \<open>getClass\<close> on \<open>n\<close> returns a constructor, then a second
  call in the state the first one left returns the same constructor and leaves the
  state unchanged, for every bound, the bound \<open>0\<close> included, under which no call
  of \<open>generateClass\<close> returns: the synthesis path is not entered again.
\<close>

theorem getClass_twice:
  assumes "getClass fuel ae n iModel s = Some (Inr (Some ctor), s')"
    and "filedUnderOwnName iModel n"
  shows "\<forall>fuel'. getClass fuel' ae n iModel s' = Some (Inr (Some ctor), s')"
proof (cases "classMap s (toLowerCase n)")
  case (Some c)
  with assms(1) have "s' = s" "ctor = c" by (simp_all add: getClass_hit del: getClass.simps)
  with Some show ?thesis by (simp add: getClass_hit del: getClass.simps)
next
  case None
  with assms(1) have "generateClass fuel ae n iModel s = Some (Inr (Some ctor), s')"
    by (simp add: getClass_miss del: getClass.simps)
  from generateClass_returned [OF this] obtain md ec where
    md: "fst (MetaDataRegistry_find n (classMetaDataRegistry iModel)) = Some md"
    "ecclass md = Some ec" "lookupClass ec s' = Some ctor" by blast
  from assms(2) md(1,2) have "differOnlyInCase ec n" by (simp add: filedUnderOwnName_def)
  then have "toLowerCase ec = toLowerCase n" by (rule differOnlyInCase_toLowerCase)
  with md(3) have "classMap s' (toLowerCase n) = Some ctor" by (simp add: lookupClass_def)
  then show ?thesis by (simp add: getClass_hit del: getClass.simps)
qed

theorem getClass_twice_witness:
  "getClass (Suc 0) True ''S:Root'' leafChain emptyRuntime = Some (Inr (Some classRoot), afterRoot)
   \<and> filedUnderOwnName leafChain ''S:Root''
   \<and> getClass 0 True ''S:Root'' leafChain afterRoot = Some (Inr (Some classRoot), afterRoot)"
proof -
  have own: "filedUnderOwnName leafChain ''S:Root''"
    by (simp add: filedUnderOwnName_def leafChain_def MetaDataRegistry_find_def
        MetaDataRegistry_add_def differOnlyInCase_def sameLetter_def charDefs)
  from getClass_twice [OF getClass_Root own] getClass_Root own show ?thesis by blast
qed

end
